theory Spec2Isabelle
  imports Main "HOL-Library.Sublist" "HOL-Library.Multiset"
begin

section \<open>JavaScript values read from the IDE's databases\<close>

text \<open>
  Everything the server reads comes out of \<^verbatim>\<open>JSON.parse\<close> and is used at type
  \<^verbatim>\<open>any\<close>, so the model keeps the decoded value as it is.  Numbers are the
  millisecond timestamps and counters of the stored records and are modelled as integers;
  strings are character lists.  An object is the list of its own properties, each key
  once.  \<open>None\<close> at type \<open>json option\<close> is JavaScript's \<^verbatim>\<open>undefined\<close>.
\<close>

datatype json =
    JNull
  | JBool bool
  | JNum int
  | JStr string
  | JArr "json list"
  | JObj "(string \<times> json) list"

datatype exn = TypeError | SyntaxError | SqliteError

text \<open>Truthiness, as \<^verbatim>\<open>if (v)\<close>, \<^verbatim>\<open>v && w\<close> and \<^verbatim>\<open>v || w\<close> test it.\<close>

fun truthy :: "json option \<Rightarrow> bool" where
  "truthy None = False"
| "truthy (Some JNull) = False"
| "truthy (Some (JBool b)) = b"
| "truthy (Some (JNum n)) = (n \<noteq> 0)"
| "truthy (Some (JStr s)) = (s \<noteq> [])"
| "truthy (Some (JArr xs)) = True"
| "truthy (Some (JObj kvs)) = True"

text \<open>\<^verbatim>\<open>a || b\<close>: the left operand when it is truthy, the right one otherwise.\<close>

definition orElse :: "json option \<Rightarrow> json \<Rightarrow> json" where
  "orElse a b = (case a of Some v \<Rightarrow> (if truthy a then v else b) | None \<Rightarrow> b)"

text \<open>
  Reading a property \<^verbatim>\<open>v.k\<close> of a value that is not \<^verbatim>\<open>null\<close>: the own property of
  an object, \<^verbatim>\<open>undefined\<close> on anything else (none of the keys the server reads is a
  property of a string, a number, a boolean or an array).  On \<^verbatim>\<open>null\<close> the read
  throws a TypeError.
\<close>

fun jprop :: "json \<Rightarrow> string \<Rightarrow> json option" where
  "jprop (JObj kvs) k = map_of kvs k"
| "jprop v k = None"

definition getProp :: "json \<Rightarrow> string \<Rightarrow> exn + json option" where
  "getProp v k = (if v = JNull then Inl TypeError else Inr (jprop v k))"

text \<open>Optional chaining \<^verbatim>\<open>v?.k\<close> never throws.\<close>

definition optProp :: "json \<Rightarrow> string \<Rightarrow> json option" where
  "optProp v k = (if v = JNull then None else jprop v k)"

section \<open>The runtime's built-ins\<close>

text \<open>
  \<^verbatim>\<open>JSON.parse\<close>, the \<^verbatim>\<open>Date\<close> object and the locale formatting belong to the
  JavaScript runtime, not to the repository; the server's functions take them as a
  parameter.
  \<^item> \<open>JSON_parse s\<close> is \<open>None\<close> where \<^verbatim>\<open>JSON.parse(s)\<close> throws a SyntaxError;
  \<^item> \<open>Date_getTime v\<close> is \<^verbatim>\<open>new Date(v).getTime()\<close>, \<open>None\<close> for NaN;
  \<^item> \<open>toLocaleDateString t\<close> is \<^verbatim>\<open>new Date(t).toLocaleDateString('en-CA')\<close>, the
    local calendar date of the instant \<open>t\<close>;
  \<^item> \<open>toLocaleString v\<close> is \<^verbatim>\<open>new Date(v).toLocaleString()\<close>;
  \<^item> \<open>toISOString t\<close> is \<^verbatim>\<open>new Date(t).toISOString()\<close>.
\<close>

record jsenv =
  JSON_parse :: "string \<Rightarrow> json option"
  Date_getTime :: "json \<Rightarrow> int option"
  toLocaleDateString :: "int \<Rightarrow> string"
  toLocaleString :: "json \<Rightarrow> string"
  toISOString :: "int \<Rightarrow> string"

section \<open>Data model of \<^verbatim>\<open>server.ts\<close>\<close>

text \<open>
  \<^verbatim>\<open>interface Composer\<close>.  Only \<open>lastUpdatedAt\<close> is checked to be a number when a
  composer is built; the other fields hold whatever the stored record held.
\<close>

record composer =
  composerId :: "json option"
  c_name :: json
  c_createdAt :: json
  lastUpdatedAt :: int
  c_mode :: json

text \<open>\<^verbatim>\<open>interface Workspace\<close>; a prompt is the stored array element, unchanged.\<close>

record workspace =
  w_id :: string
  w_path :: string
  w_folder :: "string option"
  w_modified :: string
  modifiedTimestamp :: int
  promptCount :: nat
  prompts :: "json list"
  composers :: "composer list"

section \<open>Reading one workspace database\<close>

text \<open>
  What a point query on \<^verbatim>\<open>ItemTable\<close> does: opening the database, preparing or running
  the statement throws (\<open>DbThrows\<close>: file missing, locked, no such table), or
  \<^verbatim>\<open>get()\<close> returns \<^verbatim>\<open>undefined\<close> (\<open>DbRow None\<close>, no row with that key) or a row
  with its \<^verbatim>\<open>value\<close> column.
\<close>

datatype dbread = DbThrows | DbRow "string option"

text \<open>
  The body of the \<^verbatim>\<open>try\<close> block of \<^verbatim>\<open>extractPrompts\<close>: \<open>Inl\<close> when a statement
  of it throws, \<open>Inr (Some xs)\<close> when it returns \<open>xs\<close>, \<open>Inr None\<close> when it
  falls through.
\<close>

definition extractPrompts_try :: "jsenv \<Rightarrow> dbread \<Rightarrow> exn + json list option" where
  "extractPrompts_try env r =
     (case r of
        DbThrows \<Rightarrow> Inl SqliteError
      | DbRow None \<Rightarrow> Inr None
      | DbRow (Some v) \<Rightarrow>
          if v = [] then Inr None
          else (case JSON_parse env v of
                  None \<Rightarrow> Inl SyntaxError
                | Some (JArr xs) \<Rightarrow> Inr (Some xs)
                | Some _ \<Rightarrow> Inr None))"

text \<open>
  \<^verbatim>\<open>try { ... } catch { }  return [];\<close>: a thrown exception is swallowed by the empty
  handler and control reaches the final \<^verbatim>\<open>return []\<close>.
\<close>

definition catchEmpty :: "exn + 'a list option \<Rightarrow> exn + 'a list" where
  "catchEmpty body =
     (case body of
        Inl e \<Rightarrow> Inr []
      | Inr (Some xs) \<Rightarrow> Inr xs
      | Inr None \<Rightarrow> Inr [])"

definition extractPrompts :: "jsenv \<Rightarrow> dbread \<Rightarrow> exn + json list" where
  "extractPrompts env r = catchEmpty (extractPrompts_try env r)"

text \<open>The callback of \<^verbatim>\<open>.filter\<close> in \<^verbatim>\<open>extractComposers\<close>.\<close>

definition keepComposer :: "json \<Rightarrow> exn + bool" where
  "keepComposer c =
     (case getProp c ''composerId'' of
        Inl e \<Rightarrow> Inl e
      | Inr cid \<Rightarrow>
          if \<not> truthy cid then Inr False
          else (case getProp c ''lastUpdatedAt'' of
                  Inl e \<Rightarrow> Inl e
                | Inr (Some (JNum n)) \<Rightarrow> Inr (0 < n)
                | Inr _ \<Rightarrow> Inr False))"

text \<open>\<^verbatim>\<open>Array.prototype.filter\<close> with a callback that may throw.\<close>

fun filterE :: "('a \<Rightarrow> exn + bool) \<Rightarrow> 'a list \<Rightarrow> exn + 'a list" where
  "filterE p [] = Inr []"
| "filterE p (x # xs) =
     (case p x of
        Inl e \<Rightarrow> Inl e
      | Inr b \<Rightarrow>
          (case filterE p xs of
             Inl e \<Rightarrow> Inl e
           | Inr ys \<Rightarrow> Inr (if b then x # ys else ys)))"

text \<open>
  The callback of \<^verbatim>\<open>.map\<close>.  It runs on the records the filter kept, which are not
  \<^verbatim>\<open>null\<close> and whose \<^verbatim>\<open>lastUpdatedAt\<close> is a number, so no read in it throws; the
  last branch of \<open>numberOf\<close> is never taken there.
\<close>

definition numberOf :: "json option \<Rightarrow> int" where
  "numberOf v = (case v of Some (JNum n) \<Rightarrow> n | _ \<Rightarrow> 0)"

definition toComposer :: "jsenv \<Rightarrow> json \<Rightarrow> composer" where
  "toComposer env c =
     \<lparr> composerId = jprop c ''composerId'',
       c_name = orElse (jprop c ''name'')
                  (JStr (''Chat '' @ toLocaleString env
                     (orElse (jprop c ''createdAt'') (JNum (numberOf (jprop c ''lastUpdatedAt'')))))),
       c_createdAt = orElse (jprop c ''createdAt'') (JNum (numberOf (jprop c ''lastUpdatedAt''))),
       lastUpdatedAt = numberOf (jprop c ''lastUpdatedAt''),
       c_mode = orElse (jprop c ''unifiedMode'') (JStr ''chat'') \<rparr>"

definition extractComposers_try :: "jsenv \<Rightarrow> dbread \<Rightarrow> exn + composer list option" where
  "extractComposers_try env r =
     (case r of
        DbThrows \<Rightarrow> Inl SqliteError
      | DbRow None \<Rightarrow> Inr None
      | DbRow (Some v) \<Rightarrow>
          if v = [] then Inr None
          else (case JSON_parse env v of
                  None \<Rightarrow> Inl SyntaxError
                | Some data \<Rightarrow>
                    (case optProp data ''allComposers'' of
                       Some (JArr cs) \<Rightarrow>
                         (case filterE keepComposer cs of
                            Inl e \<Rightarrow> Inl e
                          | Inr ks \<Rightarrow> Inr (Some (map (toComposer env) ks)))
                     | _ \<Rightarrow> Inr None)))"

definition extractComposers :: "jsenv \<Rightarrow> dbread \<Rightarrow> exn + composer list" where
  "extractComposers env r = catchEmpty (extractComposers_try env r)"

section \<open>\<^verbatim>\<open>Array.prototype.sort\<close>\<close>

text \<open>
  \<^verbatim>\<open>xs.sort(cmp)\<close> is stable, and a comparator result that is not positive leaves the
  two elements in their order.  It is modelled by stable insertion: the sorted permutation
  that the language guarantees for any consistent comparator.
\<close>

fun insertBy :: "('a \<Rightarrow> 'a \<Rightarrow> int) \<Rightarrow> 'a \<Rightarrow> 'a list \<Rightarrow> 'a list" where
  "insertBy cmp x [] = [x]"
| "insertBy cmp x (y # ys) = (if cmp x y \<le> 0 then x # y # ys else y # insertBy cmp x ys)"

fun Array_sort :: "('a \<Rightarrow> 'a \<Rightarrow> int) \<Rightarrow> 'a list \<Rightarrow> 'a list" where
  "Array_sort cmp [] = []"
| "Array_sort cmp (x # xs) = insertBy cmp x (Array_sort cmp xs)"

section \<open>\<^verbatim>\<open>listWorkspaces\<close>\<close>

text \<open>
  One entry of \<^verbatim>\<open>fs.readdirSync(storagePath)\<close> with what the file system and the
  database answer for it: whether \<^verbatim>\<open>state.vscdb\<close> exists, its \<^verbatim>\<open>mtimeMs\<close>, the
  value \<^verbatim>\<open>getWorkspaceFolder\<close> returns, and the outcome of the two point queries
  (each reader opens the database on its own, so one may fail and the other not).
  The storage is \<open>None\<close> when the storage directory does not exist.  Listing the
  directory and reading the modification time of a database that exists are taken to
  succeed.
\<close>

record wsdir =
  dirName :: string
  dbPath :: string
  dbExists :: bool
  mtimeMs :: int
  folderRead :: "string option"
  promptsRead :: dbread
  composersRead :: dbread

type_synonym storage = "wsdir list option"

text \<open>The \<^verbatim>\<open>for (const dir of dirs)\<close> loop; \<open>Inl\<close> when an iteration throws.\<close>

fun scanDirs :: "jsenv \<Rightarrow> int \<Rightarrow> wsdir list \<Rightarrow> exn + workspace list" where
  "scanDirs env cutoffDate [] = Inr []"
| "scanDirs env cutoffDate (d # ds) =
     (if \<not> dbExists d then scanDirs env cutoffDate ds
      else if mtimeMs d < cutoffDate then scanDirs env cutoffDate ds
      else
        (case extractPrompts env (promptsRead d) of
           Inl e \<Rightarrow> Inl e
         | Inr ps \<Rightarrow>
             (case extractComposers env (composersRead d) of
                Inl e \<Rightarrow> Inl e
              | Inr cs \<Rightarrow>
                  (case scanDirs env cutoffDate ds of
                     Inl e \<Rightarrow> Inl e
                   | Inr rest \<Rightarrow>
                       Inr (if 0 < length ps \<or> 0 < length cs
                            then \<lparr> w_id = dirName d,
                                   w_path = dbPath d,
                                   w_folder = folderRead d,
                                   w_modified = toISOString env (mtimeMs d),
                                   modifiedTimestamp = mtimeMs d,
                                   promptCount = length ps,
                                   prompts = ps,
                                   composers = cs \<rparr> # rest
                            else rest)))))"

text \<open>\<open>now\<close> is \<^verbatim>\<open>Date.now()\<close>.\<close>

definition listWorkspaces :: "jsenv \<Rightarrow> storage \<Rightarrow> int \<Rightarrow> int \<Rightarrow> exn + workspace list" where
  "listWorkspaces env fs now daysBack =
     (let cutoffDate = now - daysBack * 24 * 60 * 60 * 1000 in
      case fs of
        None \<Rightarrow> Inr []
      | Some dirs \<Rightarrow>
          (case scanDirs env cutoffDate dirs of
             Inl e \<Rightarrow> Inl e
           | Inr workspaces \<Rightarrow>
               Inr (Array_sort (\<lambda>a b. modifiedTimestamp b - modifiedTimestamp a) workspaces)))"

section \<open>The HTTP handlers\<close>

text \<open>A response: the status code and the JSON body (\<^verbatim>\<open>res.json\<close> alone sends 200).\<close>

datatype 'b response = Response nat 'b

subsection \<open>\<^verbatim>\<open>GET /api/workspaces/:id\<close>\<close>

text \<open>
  \<^verbatim>\<open>Record<string, Composer[]>\<close>: the groups in the order their keys were first set.
  The keys are printed dates; none of them is taken to name a property that a plain
  object inherits.
\<close>

fun pushGroup :: "string \<Rightarrow> 'a \<Rightarrow> (string \<times> 'a list) list \<Rightarrow> (string \<times> 'a list) list" where
  "pushGroup k v [] = [(k, [v])]"
| "pushGroup k v ((k', vs) # rest) =
     (if k = k' then (k', vs @ [v]) # rest else (k', vs) # pushGroup k v rest)"

definition groupComposersByDate :: "jsenv \<Rightarrow> composer list \<Rightarrow> (string \<times> composer list) list" where
  "groupComposersByDate env cs =
     foldl (\<lambda>grouped c. pushGroup (toLocaleDateString env (lastUpdatedAt c)) c grouped) [] cs"

record workspace_detail = workspace +
  composersByDate :: "(string \<times> composer list) list"

datatype detail_body = ErrorBody string | DetailBody workspace_detail

text \<open>\<^verbatim>\<open>x >= y\<close> and \<^verbatim>\<open>x <= y\<close> where \<open>y\<close> may be NaN: both are false then.\<close>

definition geNum :: "int \<Rightarrow> int option \<Rightarrow> bool" where
  "geNum x y = (case y of None \<Rightarrow> False | Some n \<Rightarrow> n \<le> x)"

definition leNum :: "int \<Rightarrow> int option \<Rightarrow> bool" where
  "leNum x y = (case y of None \<Rightarrow> False | Some n \<Rightarrow> x \<le> n)"

text \<open>
  \<open>filterDate\<close> is \<^verbatim>\<open>req.query.date\<close>: \<open>None\<close> when the parameter is absent;
  the empty string is falsy as well.
\<close>

definition filterComposers :: "jsenv \<Rightarrow> string option \<Rightarrow> composer list \<Rightarrow> composer list" where
  "filterComposers env filterDate cs =
     (case filterDate of
        None \<Rightarrow> cs
      | Some d \<Rightarrow>
          if d = [] then cs
          else
            (let startOfDay = Date_getTime env (JStr (d @ ''T00:00:00''));
                 endOfDay = Date_getTime env (JStr (d @ ''T23:59:59.999''))
             in filter (\<lambda>c. geNum (lastUpdatedAt c) startOfDay \<and> leNum (lastUpdatedAt c) endOfDay) cs))"

definition api_workspace ::
  "jsenv \<Rightarrow> storage \<Rightarrow> int \<Rightarrow> string \<Rightarrow> string option \<Rightarrow> exn + detail_body response" where
  "api_workspace env fs now rid filterDate =
     (case listWorkspaces env fs now 365 of
        Inl e \<Rightarrow> Inl e
      | Inr workspaces \<Rightarrow>
          (case find (\<lambda>ws. w_id ws = rid) workspaces of
             None \<Rightarrow> Inr (Response 404 (ErrorBody ''Workspace not found''))
           | Some ws \<Rightarrow>
               Inr (Response 200 (DetailBody
                 (workspace.extend
                    (ws\<lparr>composers := filterComposers env filterDate (composers ws)\<rparr>)
                    (workspace_detail.fields (groupComposersByDate env (composers ws))))))))"

subsection \<open>\<^verbatim>\<open>GET /api/dates\<close>\<close>

text \<open>
  The value type of the \<^verbatim>\<open>Map\<close> the handler fills; the \<^verbatim>\<open>Set\<close> of workspace ids
  is the list of its members in insertion order.
\<close>

record date_tally =
  t_promptCount :: nat
  t_workspaces :: "string list"
  t_composerCount :: nat

text \<open>
  The \<^verbatim>\<open>Map\<close> itself, as the list of its entries in insertion order.
  \<open>ensureDate\<close> is \<^verbatim>\<open>if (!dates.has(d)) dates.set(d, {0, new Set(), 0})\<close>;
  \<open>updateEntry\<close> changes the entry object stored under a key that is present.
\<close>

type_synonym date_map = "(string \<times> date_tally) list"

definition ensureDate :: "string \<Rightarrow> date_map \<Rightarrow> date_map" where
  "ensureDate d m =
     (if map_of m d = None
      then m @ [(d, \<lparr> t_promptCount = 0, t_workspaces = [], t_composerCount = 0 \<rparr>)]
      else m)"

definition updateEntry :: "string \<Rightarrow> (date_tally \<Rightarrow> date_tally) \<Rightarrow> date_map \<Rightarrow> date_map" where
  "updateEntry d f m = map (\<lambda>(k, e). if k = d then (k, f e) else (k, e)) m"

definition setAdd :: "string \<Rightarrow> string list \<Rightarrow> string list" where
  "setAdd x xs = (if x \<in> set xs then xs else xs @ [x])"

text \<open>One iteration of the inner loop over \<^verbatim>\<open>ws.composers\<close>.\<close>

definition tallyComposer :: "jsenv \<Rightarrow> string \<Rightarrow> date_map \<Rightarrow> composer \<Rightarrow> date_map" where
  "tallyComposer env wsId dates c =
     (let composerDate = toLocaleDateString env (lastUpdatedAt c) in
      updateEntry composerDate
        (\<lambda>entry. entry\<lparr> t_workspaces := setAdd wsId (t_workspaces entry),
                        t_composerCount := t_composerCount entry + 1 \<rparr>)
        (ensureDate composerDate dates))"

text \<open>One iteration of the outer loop over the workspaces.\<close>

definition tallyWorkspace :: "jsenv \<Rightarrow> date_map \<Rightarrow> workspace \<Rightarrow> date_map" where
  "tallyWorkspace env dates ws =
     (let wsDate = toLocaleDateString env (modifiedTimestamp ws) in
      updateEntry wsDate
        (\<lambda>wsEntry. wsEntry\<lparr> t_promptCount := t_promptCount wsEntry + promptCount ws,
                            t_workspaces := setAdd (w_id ws) (t_workspaces wsEntry) \<rparr>)
        (foldl (tallyComposer env (w_id ws)) (ensureDate wsDate dates) (composers ws)))"

record date_group =
  date :: string
  g_promptCount :: nat
  g_composerCount :: nat
  workspaceIds :: "string list"

text \<open>
  \<^verbatim>\<open>a.localeCompare(b)\<close> on the strings the handler sorts, which are the dates
  \<^verbatim>\<open>toLocaleDateString('en-CA')\<close> prints: digits and hyphens, on which the collation
  order is the order of the character codes.
\<close>

fun localeCompare :: "string \<Rightarrow> string \<Rightarrow> int" where
  "localeCompare [] [] = 0"
| "localeCompare [] (y # ys) = - 1"
| "localeCompare (x # xs) [] = 1"
| "localeCompare (x # xs) (y # ys) =
     (if (of_char x :: nat) < of_char y then - 1
      else if (of_char y :: nat) < of_char x then 1
      else localeCompare xs ys)"

definition datesResult :: "date_map \<Rightarrow> date_group list" where
  "datesResult dates =
     Array_sort (\<lambda>a b. localeCompare (date b) (date a))
       (map (\<lambda>(d, data). \<lparr> date = d,
                            g_promptCount = t_promptCount data,
                            g_composerCount = t_composerCount data,
                            workspaceIds = t_workspaces data \<rparr>)
          (filter (\<lambda>(d, data). 0 < t_composerCount data) dates))"

definition api_dates :: "jsenv \<Rightarrow> storage \<Rightarrow> int \<Rightarrow> exn + date_group list response" where
  "api_dates env fs now =
     (case listWorkspaces env fs now 30 of
        Inl e \<Rightarrow> Inl e
      | Inr workspaces \<Rightarrow>
          Inr (Response 200 (datesResult (foldl (tallyWorkspace env) [] workspaces))))"

subsection \<open>\<^verbatim>\<open>GET /api/search\<close>\<close>









subsection \<open>\<^verbatim>\<open>GET /api/composers/:composerId/bubbles\<close>\<close>

record bubble =
  bubbleId :: "string option"
  b_type :: json
  b_text :: json
  b_createdAt :: "json option"

text \<open>
  The global database as the handler meets it: the file does not exist, or opening it or
  the query throws, or \<^verbatim>\<open>all(...)\<close> returns the rows whose key matches
  \<^verbatim>\<open>bubbleId:<composerId>:%\<close>, each a key and a value.
\<close>

datatype globaldb = GlobalMissing | GlobalThrows | GlobalRows "(string \<times> string) list"

text \<open>\<^verbatim>\<open>key.split(':')\<close> and the read of an index that may be out of range.\<close>

fun splitColon :: "string \<Rightarrow> string \<Rightarrow> string list" where
  "splitColon acc [] = [rev acc]"
| "splitColon acc (c # cs) =
     (if c = CHR '':'' then rev acc # splitColon [] cs else splitColon (c # acc) cs)"

definition nthOpt :: "'a list \<Rightarrow> nat \<Rightarrow> 'a option" where
  "nthOpt xs i = (if i < length xs then Some (xs ! i) else None)"

text \<open>
  The body of the loop over the rows, inside its own \<^verbatim>\<open>try\<close>: \<open>None\<close> when the row
  adds no bubble (its JSON does not parse, reading \<^verbatim>\<open>data.text\<close> throws, or the text
  is falsy).
\<close>

definition rowBubble :: "jsenv \<Rightarrow> string \<times> string \<Rightarrow> bubble option" where
  "rowBubble env row =
     (case JSON_parse env (snd row) of
        None \<Rightarrow> None
      | Some data \<Rightarrow>
          (case getProp data ''text'' of
             Inl e \<Rightarrow> None
           | Inr t \<Rightarrow>
               (case t of
                  None \<Rightarrow> None
                | Some txt \<Rightarrow>
                    if truthy t
                    then Some \<lparr> bubbleId = nthOpt (splitColon [] (fst row)) 2,
                                b_type = orElse (jprop data ''type'') (JNum 0),
                                b_text = txt,
                                b_createdAt = jprop data ''createdAt'' \<rparr>
                    else None)))"

text \<open>
  The comparator handed to \<^verbatim>\<open>bubbles.sort\<close>.  A difference that is NaN (one of the two
  dates does not parse) counts as 0, as the sort reads it.
\<close>

definition timeOf :: "jsenv \<Rightarrow> bubble \<Rightarrow> int option" where
  "timeOf env b = (case b_createdAt b of None \<Rightarrow> None | Some v \<Rightarrow> Date_getTime env v)"

definition bubbleCompare :: "jsenv \<Rightarrow> bubble \<Rightarrow> bubble \<Rightarrow> int" where
  "bubbleCompare env a b =
     (if truthy (b_createdAt a) \<and> truthy (b_createdAt b)
      then (case (timeOf env a, timeOf env b) of
              (Some x, Some y) \<Rightarrow> x - y
            | _ \<Rightarrow> 0)
      else 0)"

definition api_bubbles_try :: "jsenv \<Rightarrow> globaldb \<Rightarrow> exn + bubble list response" where
  "api_bubbles_try env g =
     (case g of
        GlobalMissing \<Rightarrow> Inr (Response 200 [])
      | GlobalThrows \<Rightarrow> Inl SqliteError
      | GlobalRows rows \<Rightarrow>
          Inr (Response 200 (Array_sort (bubbleCompare env) (List.map_filter (rowBubble env) rows))))"

text \<open>The handler's \<^verbatim>\<open>catch (error)\<close> logs and answers with the empty array.\<close>

definition api_bubbles :: "jsenv \<Rightarrow> globaldb \<Rightarrow> exn + bubble list response" where
  "api_bubbles env g =
     (case api_bubbles_try env g of
        Inl e \<Rightarrow> Inr (Response 200 [])
      | Inr r \<Rightarrow> Inr r)"

section \<open>A runtime with a fixed local time zone\<close>

text \<open>
  Modelled built-ins: an instance of the runtime parameter for a machine whose local time
  is always \<open>off\<close> milliseconds ahead of UTC.  Dates follow the proleptic Gregorian
  calendar; \<open>daysFromCivil y m d\<close> is the number of days from 1970-01-01 to the date.
\<close>

definition daysFromCivil :: "int \<Rightarrow> int \<Rightarrow> int \<Rightarrow> int" where
  "daysFromCivil y m d =
     (let y' = (if m \<le> 2 then y - 1 else y);
          era = y' div 400;
          yoe = y' - era * 400;
          doy = (153 * (if 2 < m then m - 3 else m + 9) + 2) div 5 + d - 1;
          doe = yoe * 365 + yoe div 4 - yoe div 100 + doy
      in era * 146097 + doe - 719468)"

definition civilFromDays :: "int \<Rightarrow> int \<times> int \<times> int" where
  "civilFromDays z0 =
     (let z = z0 + 719468;
          era = z div 146097;
          doe = z - era * 146097;
          yoe = (doe - doe div 1460 + doe div 36524 - doe div 146096) div 365;
          doy = doe - (365 * yoe + yoe div 4 - yoe div 100);
          mp = (5 * doy + 2) div 153;
          d = doy - (153 * mp + 2) div 5 + 1;
          m = (if mp < 10 then mp + 3 else mp - 9)
      in (yoe + era * 400 + (if m \<le> 2 then 1 else 0), m, d))"

definition daysInMonth :: "int \<Rightarrow> int \<Rightarrow> int" where
  "daysInMonth y m =
     (if m = 2 then (if y mod 4 = 0 \<and> (y mod 100 \<noteq> 0 \<or> y mod 400 = 0) then 29 else 28)
      else if m = 4 \<or> m = 6 \<or> m = 9 \<or> m = 11 then 30 else 31)"

definition digitVal :: "char \<Rightarrow> int option" where
  "digitVal c =
     (let n = (of_char c :: nat) in if 48 \<le> n \<and> n \<le> 57 then Some (int n - 48) else None)"

fun digitsVal :: "string \<Rightarrow> int \<Rightarrow> int option" where
  "digitsVal [] acc = Some acc"
| "digitsVal (c # cs) acc =
     (case digitVal c of None \<Rightarrow> None | Some d \<Rightarrow> digitsVal cs (acc * 10 + d))"

definition numeric :: "string \<Rightarrow> int option" where
  "numeric s = (if s = [] then None else digitsVal s 0)"

text \<open>
  What follows the seconds: nothing (local time), \<^verbatim>\<open>Z\<close> (UTC), or three digits of
  milliseconds and then either.  The result is the milliseconds and whether the time is
  UTC.
\<close>

definition parseSuffix :: "string \<Rightarrow> (int \<times> bool) option" where
  "parseSuffix r =
     (if r = [] then Some (0, False)
      else if r = ''Z'' then Some (0, True)
      else if hd r = CHR ''.'' \<and> 4 \<le> length r then
        (case numeric (take 3 (tl r)) of
           None \<Rightarrow> None
         | Some ms \<Rightarrow>
             if drop 4 r = [] then Some (ms, False)
             else if drop 4 r = ''Z'' then Some (ms, True)
             else None)
      else None)"

text \<open>
  \<^verbatim>\<open>new Date(s).getTime()\<close> for a string of the form
  \<^verbatim>\<open>YYYY-MM-DDTHH:mm:ss\<close>, optionally followed by \<^verbatim>\<open>.sss\<close> and by \<^verbatim>\<open>Z\<close>;
  without \<^verbatim>\<open>Z\<close> the string is read as local time.  Any other string counts as
  unparseable (NaN).
\<close>

definition parseDateTime :: "int \<Rightarrow> string \<Rightarrow> int option" where
  "parseDateTime off s =
     (if length s < 19 \<or> s ! 4 \<noteq> CHR ''-'' \<or> s ! 7 \<noteq> CHR ''-'' \<or> s ! 10 \<noteq> CHR ''T''
         \<or> s ! 13 \<noteq> CHR '':'' \<or> s ! 16 \<noteq> CHR '':'' then None
      else
        (case (numeric (take 4 s), numeric (take 2 (drop 5 s)), numeric (take 2 (drop 8 s))) of
           (Some y, Some mo, Some d) \<Rightarrow>
             (case (numeric (take 2 (drop 11 s)), numeric (take 2 (drop 14 s)),
                    numeric (take 2 (drop 17 s)), parseSuffix (drop 19 s)) of
                (Some h, Some mi, Some sec, Some (ms, utc)) \<Rightarrow>
                  if 1 \<le> mo \<and> mo \<le> 12 \<and> 1 \<le> d \<and> d \<le> daysInMonth y mo
                     \<and> h \<le> 23 \<and> mi \<le> 59 \<and> sec \<le> 59
                  then Some (daysFromCivil y mo d * 86400000 + h * 3600000 + mi * 60000
                             + sec * 1000 + ms - (if utc then 0 else off))
                  else None
              | _ \<Rightarrow> None)
         | _ \<Rightarrow> None))"

definition getTimeFixed :: "int \<Rightarrow> json \<Rightarrow> int option" where
  "getTimeFixed off v =
     (case v of
        JNum n \<Rightarrow> Some n
      | JStr s \<Rightarrow> parseDateTime off s
      | _ \<Rightarrow> None)"

definition digitChar :: "int \<Rightarrow> char" where
  "digitChar n = ''0123456789'' ! nat (n mod 10)"

definition pad2 :: "int \<Rightarrow> string" where
  "pad2 n = [digitChar (n div 10), digitChar n]"

definition pad3 :: "int \<Rightarrow> string" where
  "pad3 n = [digitChar (n div 100), digitChar (n div 10), digitChar n]"

definition pad4 :: "int \<Rightarrow> string" where
  "pad4 n = pad2 (n div 100) @ pad2 n"

definition isoDate :: "int \<Rightarrow> string" where
  "isoDate t =
     (case civilFromDays (t div 86400000) of
        (y, m, d) \<Rightarrow> pad4 y @ ''-'' @ pad2 m @ ''-'' @ pad2 d)"

definition isoTime :: "int \<Rightarrow> string" where
  "isoTime t =
     (let r = t mod 86400000 in
      pad2 (r div 3600000) @ '':'' @ pad2 (r div 60000 mod 60) @ '':'' @ pad2 (r div 1000 mod 60))"

definition localeStringFixed :: "int \<Rightarrow> json \<Rightarrow> string" where
  "localeStringFixed off v =
     (case getTimeFixed off v of
        None \<Rightarrow> ''Invalid Date''
      | Some t \<Rightarrow> isoDate (t + off) @ '', '' @ isoTime (t + off))"

text \<open>
  (The locale's own layout of date and time is not reproduced: \<open>localeStringFixed\<close>
  prints the local date and time in the ISO layout.  It only feeds the generated name of
  an unnamed conversation.)
\<close>

definition fixedZone :: "int \<Rightarrow> (string \<Rightarrow> json option) \<Rightarrow> jsenv" where
  "fixedZone off parse =
     \<lparr> JSON_parse = parse,
       Date_getTime = getTimeFixed off,
       toLocaleDateString = (\<lambda>t. isoDate (t + off)),
       toLocaleString = localeStringFixed off,
       toISOString = (\<lambda>t. isoDate t @ ''T'' @ isoTime t @ ''.'' @ pad3 (t mod 1000) @ ''Z'') \<rparr>"

section \<open>The summary of the selection panel (\<^verbatim>\<open>SelectionPanel.tsx\<close>)\<close>



























section \<open>Notions of the specification\<close>




text \<open>
  The two tallies of the date list, in the words of the specification: the number of
  composers of the enumerated workspaces whose own last-updated date is \<open>d\<close>, and the
  sum of the prompt counts of the workspaces whose own modification date is \<open>d\<close>.
\<close>

definition composersOn :: "jsenv \<Rightarrow> workspace list \<Rightarrow> string \<Rightarrow> nat" where
  "composersOn env wss d =
     length (filter (\<lambda>c. toLocaleDateString env (lastUpdatedAt c) = d) (concat (map composers wss)))"

definition promptsOn :: "jsenv \<Rightarrow> workspace list \<Rightarrow> string \<Rightarrow> nat" where
  "promptsOn env wss d =
     sum_list (map promptCount (filter (\<lambda>ws. toLocaleDateString env (modifiedTimestamp ws) = d) wss))"

text \<open>The counts the handler's map holds for a date (zero when the date has no entry).\<close>

definition composerCountAt :: "date_map \<Rightarrow> string \<Rightarrow> nat" where
  "composerCountAt m d = (case map_of m d of None \<Rightarrow> 0 | Some e \<Rightarrow> t_composerCount e)"

definition promptCountAt :: "date_map \<Rightarrow> string \<Rightarrow> nat" where
  "promptCountAt m d = (case map_of m d of None \<Rightarrow> 0 | Some e \<Rightarrow> t_promptCount e)"





section \<open>A small installation, for evaluating the definitions\<close>

text \<open>
  Three stored values and the values \<^verbatim>\<open>JSON.parse\<close> decodes them to; the parser of
  this installation is the table \<open>demoParse\<close>, which rejects every other text.
\<close>

definition demoPromptsText :: string where
  \<open>demoPromptsText = ''[{"text":"Deploy the API","commandType":4},{"text":"fix tests","commandType":4}]''\<close>

definition demoPrompts :: "json list" where
  "demoPrompts =
     [JObj [(''text'', JStr ''Deploy the API''), (''commandType'', JNum 4)],
      JObj [(''text'', JStr ''fix tests''), (''commandType'', JNum 4)]]"

definition demoPromptsText2 :: string where
  \<open>demoPromptsText2 = ''[{"text":"Rename module","commandType":2}]''\<close>

definition demoPrompts2 :: "json list" where
  "demoPrompts2 = [JObj [(''text'', JStr ''Rename module''), (''commandType'', JNum 2)]]"

definition demoComposersText :: string where
  \<open>demoComposersText = ''{"allComposers":[{"composerId":"c1","name":"Parser work","lastUpdatedAt":1704103200000},{"composerId":"c2","name":"Release","lastUpdatedAt":1704189600000,"unifiedMode":"agent"},{"composerId":"c3","name":"Draft"}]}''\<close>

definition demoRaw1 :: json where
  "demoRaw1 = JObj [(''composerId'', JStr ''c1''), (''name'', JStr ''Parser work''),
                    (''lastUpdatedAt'', JNum 1704103200000)]"

definition demoRaw2 :: json where
  "demoRaw2 = JObj [(''composerId'', JStr ''c2''), (''name'', JStr ''Release''),
                    (''lastUpdatedAt'', JNum 1704189600000), (''unifiedMode'', JStr ''agent'')]"

definition demoRaw3 :: json where
  "demoRaw3 = JObj [(''composerId'', JStr ''c3''), (''name'', JStr ''Draft'')]"

definition demoNullText :: string where
  \<open>demoNullText = ''{"allComposers":[{"composerId":"c1","name":"Parser work","lastUpdatedAt":1704103200000},null]}''\<close>

definition demoBubbleText1 :: string where
  \<open>demoBubbleText1 = ''{"type":1,"text":"Why does it fail?","createdAt":"2024-01-01T10:00:05Z"}''\<close>

definition demoBubbleText2 :: string where
  \<open>demoBubbleText2 = ''{"type":2,"text":"The key is missing.","createdAt":"2024-01-01T10:00:09Z"}''\<close>

definition demoParse :: "string \<Rightarrow> json option" where
  "demoParse s =
     (if s = demoPromptsText then Some (JArr demoPrompts)
      else if s = demoPromptsText2 then Some (JArr demoPrompts2)
      else if s = demoComposersText then Some (JObj [(''allComposers'', JArr [demoRaw1, demoRaw2, demoRaw3])])
      else if s = demoNullText then Some (JObj [(''allComposers'', JArr [demoRaw1, JNull])])
      else if s = demoBubbleText1
        then Some (JObj [(''type'', JNum 1), (''text'', JStr ''Why does it fail?''),
                         (''createdAt'', JStr ''2024-01-01T10:00:05Z'')])
      else if s = demoBubbleText2
        then Some (JObj [(''type'', JNum 2), (''text'', JStr ''The key is missing.''),
                         (''createdAt'', JStr ''2024-01-01T10:00:09Z'')])
      else None)"

text \<open>The machine runs on UTC; the clock reads 2024-01-03T16:40:00Z.\<close>

definition demoEnv :: jsenv where
  "demoEnv = fixedZone 0 demoParse"

definition demoNow :: int where
  "demoNow = 1704300000000"

text \<open>
  The storage directory: a workspace with prompts and conversations, one whose database
  holds neither, one with prompts only, one not touched since 1970, and a directory
  without a database.
\<close>

definition demoDirs :: "wsdir list" where
  "demoDirs =
     [\<lparr> dirName = ''a1b2'', dbPath = ''/storage/a1b2/state.vscdb'', dbExists = True,
        mtimeMs = 1704190000000, folderRead = Some ''/home/dev/api'',
        promptsRead = DbRow (Some demoPromptsText), composersRead = DbRow (Some demoComposersText) \<rparr>,
      \<lparr> dirName = ''e5f6'', dbPath = ''/storage/e5f6/state.vscdb'', dbExists = True,
        mtimeMs = 1704290000000, folderRead = None,
        promptsRead = DbRow None, composersRead = DbThrows \<rparr>,
      \<lparr> dirName = ''c3d4'', dbPath = ''/storage/c3d4/state.vscdb'', dbExists = True,
        mtimeMs = 1704280000000, folderRead = Some ''/home/dev/site'',
        promptsRead = DbRow (Some demoPromptsText2), composersRead = DbRow None \<rparr>,
      \<lparr> dirName = ''0ld9'', dbPath = ''/storage/0ld9/state.vscdb'', dbExists = True,
        mtimeMs = 1000, folderRead = None,
        promptsRead = DbRow (Some demoPromptsText), composersRead = DbRow None \<rparr>,
      \<lparr> dirName = ''tmp'', dbPath = ''/storage/tmp/state.vscdb'', dbExists = False,
        mtimeMs = 1704290000000, folderRead = None,
        promptsRead = DbThrows, composersRead = DbThrows \<rparr>]"

definition demoComposer1 :: composer where
  "demoComposer1 =
     \<lparr> composerId = Some (JStr ''c1''), c_name = JStr ''Parser work'',
       c_createdAt = JNum 1704103200000, lastUpdatedAt = 1704103200000, c_mode = JStr ''chat'' \<rparr>"

definition demoComposer2 :: composer where
  "demoComposer2 =
     \<lparr> composerId = Some (JStr ''c2''), c_name = JStr ''Release'',
       c_createdAt = JNum 1704189600000, lastUpdatedAt = 1704189600000, c_mode = JStr ''agent'' \<rparr>"

definition demoWorkspaceA :: workspace where
  "demoWorkspaceA =
     \<lparr> w_id = ''a1b2'', w_path = ''/storage/a1b2/state.vscdb'', w_folder = Some ''/home/dev/api'',
       w_modified = ''2024-01-02T10:06:40.000Z'', modifiedTimestamp = 1704190000000,
       promptCount = 2, prompts = demoPrompts, composers = [demoComposer1, demoComposer2] \<rparr>"

definition demoWorkspaceC :: workspace where
  "demoWorkspaceC =
     \<lparr> w_id = ''c3d4'', w_path = ''/storage/c3d4/state.vscdb'', w_folder = Some ''/home/dev/site'',
       w_modified = ''2024-01-03T11:06:40.000Z'', modifiedTimestamp = 1704280000000,
       promptCount = 1, prompts = demoPrompts2, composers = [] \<rparr>"

text \<open>The date list of the installation.\<close>

definition demoDates :: "date_group list" where
  "demoDates =
     [\<lparr> date = ''2024-01-02'', g_promptCount = 2, g_composerCount = 1, workspaceIds = [''a1b2''] \<rparr>,
      \<lparr> date = ''2024-01-01'', g_promptCount = 0, g_composerCount = 1, workspaceIds = [''a1b2''] \<rparr>]"




text \<open>
  The rows of one conversation in the global database, the later message first and a row
  of corrupt JSON between the two, and the two bubbles they hold.
\<close>

definition demoRows :: "(string \<times> string) list" where
  "demoRows =
     [(''bubbleId:c1:b2'', demoBubbleText2),
      (''bubbleId:c1:bad'', ''{oops''),
      (''bubbleId:c1:b1'', demoBubbleText1)]"

definition demoBubble1 :: bubble where
  "demoBubble1 =
     \<lparr> bubbleId = Some ''b1'', b_type = JNum 1, b_text = JStr ''Why does it fail?'',
       b_createdAt = Some (JStr ''2024-01-01T10:00:05Z'') \<rparr>"

definition demoBubble2 :: bubble where
  "demoBubble2 =
     \<lparr> bubbleId = Some ''b2'', b_type = JNum 2, b_text = JStr ''The key is missing.'',
       b_createdAt = Some (JStr ''2024-01-01T10:00:09Z'') \<rparr>"



section \<open>Properties\<close>

subsection \<open>The installation of the examples\<close>

lemma demo_list365: "listWorkspaces demoEnv (Some demoDirs) demoNow 365 = Inr [demoWorkspaceC, demoWorkspaceA]"
  by code_simp

lemma demo_list30: "listWorkspaces demoEnv (Some demoDirs) demoNow 30 = Inr [demoWorkspaceC, demoWorkspaceA]"
  by code_simp

lemma demo_parse_garbage: "JSON_parse demoEnv ''{oops'' = None"
  by code_simp

lemma demo_parse_composers:
  "JSON_parse demoEnv demoComposersText = Some (JObj [(''allComposers'', JArr [demoRaw1, demoRaw2, demoRaw3])])"
  by code_simp

lemma demo_parse_prompts: "JSON_parse demoEnv demoPromptsText = Some (JArr demoPrompts)"
  by code_simp

subsection \<open>Sorting\<close>

lemma set_insertBy: "set (insertBy cmp x xs) = insert x (set xs)"
  by (induction xs) auto

lemma set_Array_sort: "set (Array_sort cmp xs) = set xs"
  by (induction xs) (auto simp: set_insertBy)

lemma mset_insertBy: "mset (insertBy cmp x xs) = add_mset x (mset xs)"
  by (induction xs) auto

lemma mset_Array_sort: "mset (Array_sort cmp xs) = mset xs"
  by (induction xs) (auto simp: mset_insertBy)

lemma sorted_insertBy:
  assumes tot: "\<And>y. y \<in> set ys \<Longrightarrow> cmp x y \<le> 0 \<or> cmp y x \<le> 0"
    and trans: "\<And>y z. y \<in> set ys \<Longrightarrow> z \<in> set ys \<Longrightarrow> cmp x y \<le> 0 \<Longrightarrow> cmp y z \<le> 0 \<Longrightarrow> cmp x z \<le> 0"
    and srt: "sorted_wrt (\<lambda>a b. cmp a b \<le> 0) ys"
  shows "sorted_wrt (\<lambda>a b. cmp a b \<le> 0) (insertBy cmp x ys)"
  using assms
proof (induction ys)
  case Nil
  then show ?case by simp
next
  case (Cons y ys)
  have srt_ys: "sorted_wrt (\<lambda>a b. cmp a b \<le> 0) ys" and y_le: "\<forall>z\<in>set ys. cmp y z \<le> 0"
    using Cons.prems(3) by simp_all
  show ?case
  proof (cases "cmp x y \<le> 0")
    case True
    have "\<forall>z\<in>set ys. cmp x z \<le> 0"
    proof
      fix z assume z: "z \<in> set ys"
      with y_le have "cmp y z \<le> 0" by simp
      with Cons.prems(2)[of y z] True z show "cmp x z \<le> 0" by simp
    qed
    with True srt_ys y_le show ?thesis by simp
  next
    case False
    with Cons.prems(1)[of y] have yx: "cmp y x \<le> 0" by simp
    have ih: "sorted_wrt (\<lambda>a b. cmp a b \<le> 0) (insertBy cmp x ys)"
    proof (rule Cons.IH)
      fix z assume "z \<in> set ys"
      then show "cmp x z \<le> 0 \<or> cmp z x \<le> 0" using Cons.prems(1)[of z] by simp
    next
      fix u z assume "u \<in> set ys" "z \<in> set ys" "cmp x u \<le> 0" "cmp u z \<le> 0"
      then show "cmp x z \<le> 0" using Cons.prems(2)[of u z] by simp
    next
      show "sorted_wrt (\<lambda>a b. cmp a b \<le> 0) ys" by (rule srt_ys)
    qed
    have "\<forall>z\<in>set (insertBy cmp x ys). cmp y z \<le> 0"
      using yx y_le by (simp add: set_insertBy)
    with False ih show ?thesis by simp
  qed
qed

lemma sorted_Array_sort:
  assumes tot: "\<And>a b. a \<in> set xs \<Longrightarrow> b \<in> set xs \<Longrightarrow> cmp a b \<le> 0 \<or> cmp b a \<le> 0"
    and trans: "\<And>a b c. a \<in> set xs \<Longrightarrow> b \<in> set xs \<Longrightarrow> c \<in> set xs \<Longrightarrow>
                  cmp a b \<le> 0 \<Longrightarrow> cmp b c \<le> 0 \<Longrightarrow> cmp a c \<le> 0"
  shows "sorted_wrt (\<lambda>a b. cmp a b \<le> 0) (Array_sort cmp xs)"
  using assms
proof (induction xs)
  case Nil
  show ?case by simp
next
  case (Cons x xs)
  have ih: "sorted_wrt (\<lambda>a b. cmp a b \<le> 0) (Array_sort cmp xs)"
  proof (rule Cons.IH)
    fix a b assume "a \<in> set xs" "b \<in> set xs"
    then show "cmp a b \<le> 0 \<or> cmp b a \<le> 0"
      using Cons.prems(1)[of a b] by simp
  next
    fix a b c assume "a \<in> set xs" "b \<in> set xs" "c \<in> set xs" "cmp a b \<le> 0" "cmp b c \<le> 0"
    then show "cmp a c \<le> 0"
      using Cons.prems(2)[of a b c] by simp
  qed
  have "sorted_wrt (\<lambda>a b. cmp a b \<le> 0) (insertBy cmp x (Array_sort cmp xs))"
  proof (rule sorted_insertBy[OF _ _ ih])
    fix y assume "y \<in> set (Array_sort cmp xs)"
    then show "cmp x y \<le> 0 \<or> cmp y x \<le> 0"
      using Cons.prems(1)[of x y] by (simp add: set_Array_sort)
  next
    fix y z
    assume "y \<in> set (Array_sort cmp xs)" "z \<in> set (Array_sort cmp xs)" "cmp x y \<le> 0" "cmp y z \<le> 0"
    then show "cmp x z \<le> 0"
      using Cons.prems(2)[of x y z] by (simp add: set_Array_sort)
  qed
  then show ?case by simp
qed

subsection \<open>The two readers\<close>

lemma catchEmpty_total: "\<exists>xs. catchEmpty body = Inr xs"
  by (simp add: catchEmpty_def split: sum.splits option.splits)

lemma catchEmpty_Inl: "catchEmpty (Inl e) = Inr []"
  by (simp add: catchEmpty_def)

lemma extractPrompts_total: "\<exists>ps. extractPrompts env r = Inr ps"
  by (simp add: extractPrompts_def catchEmpty_total)

lemma extractComposers_total: "\<exists>cs. extractComposers env r = Inr cs"
  by (simp add: extractComposers_def catchEmpty_total)






text \<open>
  Claim C7.  \<^verbatim>\<open>extractPrompts\<close> and \<^verbatim>\<open>extractComposers\<close> never raise: whatever the
  database answers and whatever the parser does, each returns a sequence; and whenever a
  statement of the \<^verbatim>\<open>try\<close> block throws, or the database cannot be opened, or the key
  is missing, or the stored text does not parse, or the decoded value is not an array
  (for the composers: has no array under \<^verbatim>\<open>allComposers\<close>), the sequence returned is
  empty.
\<close>

theorem readers_never_raise:
  "(\<exists>ps. extractPrompts env r = Inr ps)
   \<and> (\<exists>cs. extractComposers env r = Inr cs)
   \<and> (\<forall>e. extractPrompts_try env r = Inl e \<longrightarrow> extractPrompts env r = Inr [])
   \<and> (\<forall>e. extractComposers_try env r = Inl e \<longrightarrow> extractComposers env r = Inr [])
   \<and> extractPrompts env DbThrows = Inr [] \<and> extractComposers env DbThrows = Inr []
   \<and> extractPrompts env (DbRow None) = Inr [] \<and> extractComposers env (DbRow None) = Inr []
   \<and> (JSON_parse env v = None \<longrightarrow>
         extractPrompts env (DbRow (Some v)) = Inr [] \<and> extractComposers env (DbRow (Some v)) = Inr [])
   \<and> (JSON_parse env v = Some j \<longrightarrow> (\<forall>xs. j \<noteq> JArr xs) \<longrightarrow>
         extractPrompts env (DbRow (Some v)) = Inr [])
   \<and> (JSON_parse env v = Some j \<longrightarrow> (\<forall>xs. optProp j ''allComposers'' \<noteq> Some (JArr xs)) \<longrightarrow>
         extractComposers env (DbRow (Some v)) = Inr [])"
proof -
  have p3: "\<forall>e. extractPrompts_try env r = Inl e \<longrightarrow> extractPrompts env r = Inr []"
    by (simp add: extractPrompts_def catchEmpty_def)
  have p4: "\<forall>e. extractComposers_try env r = Inl e \<longrightarrow> extractComposers env r = Inr []"
    by (simp add: extractComposers_def catchEmpty_def)
  have p5: "extractPrompts env DbThrows = Inr [] \<and> extractComposers env DbThrows = Inr []"
    by (simp add: extractPrompts_def extractPrompts_try_def extractComposers_def
        extractComposers_try_def catchEmpty_def)
  have p6: "extractPrompts env (DbRow None) = Inr [] \<and> extractComposers env (DbRow None) = Inr []"
    by (simp add: extractPrompts_def extractPrompts_try_def extractComposers_def
        extractComposers_try_def catchEmpty_def)
  have p7: "JSON_parse env v = None \<longrightarrow>
         extractPrompts env (DbRow (Some v)) = Inr [] \<and> extractComposers env (DbRow (Some v)) = Inr []"
    by (simp add: extractPrompts_def extractPrompts_try_def extractComposers_def
        extractComposers_try_def catchEmpty_def)
  have p8: "JSON_parse env v = Some j \<longrightarrow> (\<forall>xs. j \<noteq> JArr xs) \<longrightarrow>
         extractPrompts env (DbRow (Some v)) = Inr []"
    by (cases j) (simp_all add: extractPrompts_def extractPrompts_try_def catchEmpty_def)
  have p9: "JSON_parse env v = Some j \<longrightarrow> (\<forall>xs. optProp j ''allComposers'' \<noteq> Some (JArr xs)) \<longrightarrow>
         extractComposers env (DbRow (Some v)) = Inr []"
    by (simp add: extractComposers_def extractComposers_try_def catchEmpty_def
        split: option.splits json.splits)
  show ?thesis
    using extractPrompts_total[of env r] extractComposers_total[of env r] p3 p4 p5 p6 p7 p8 p9
    by blast
qed

text \<open>The theorem at a failing database, a corrupt text and two texts of the wrong shape.\<close>

theorem readers_never_raise_witness:
  "extractPrompts_try demoEnv DbThrows = Inl SqliteError
   \<and> extractPrompts demoEnv DbThrows = Inr []
   \<and> JSON_parse demoEnv ''{oops'' = None
   \<and> extractPrompts demoEnv (DbRow (Some ''{oops'')) = Inr []
   \<and> extractComposers demoEnv (DbRow (Some ''{oops'')) = Inr []
   \<and> JSON_parse demoEnv demoComposersText = Some (JObj [(''allComposers'', JArr [demoRaw1, demoRaw2, demoRaw3])])
   \<and> extractPrompts demoEnv (DbRow (Some demoComposersText)) = Inr []
   \<and> JSON_parse demoEnv demoPromptsText = Some (JArr demoPrompts)
   \<and> extractComposers demoEnv (DbRow (Some demoPromptsText)) = Inr []"
proof -
  have t: "extractPrompts_try demoEnv DbThrows = Inl SqliteError"
    by (simp add: extractPrompts_try_def)
  have o: "\<forall>xs. optProp (JArr demoPrompts) ''allComposers'' \<noteq> Some (JArr xs)"
    by (simp add: optProp_def)
  show ?thesis
    using readers_never_raise[of demoEnv DbThrows "''{oops''" JNull]
      readers_never_raise[of demoEnv DbThrows demoComposersText "JObj [(''allComposers'', JArr [demoRaw1, demoRaw2, demoRaw3])]"]
      readers_never_raise[of demoEnv DbThrows demoPromptsText "JArr demoPrompts"]
      t o demo_parse_garbage demo_parse_composers demo_parse_prompts
    by simp
qed










subsection \<open>\<^verbatim>\<open>listWorkspaces\<close>\<close>

lemma scanDirs_total: "\<exists>ws. scanDirs env cutoff ds = Inr ws"
proof (induction ds)
  case Nil
  then show ?case by simp
next
  case (Cons d ds)
  obtain ps where ps: "extractPrompts env (promptsRead d) = Inr ps"
    using extractPrompts_total by blast
  obtain cs where cs: "extractComposers env (composersRead d) = Inr cs"
    using extractComposers_total by blast
  from Cons obtain rest where rest: "scanDirs env cutoff ds = Inr rest" by blast
  show ?case by (simp add: ps cs rest)
qed


lemma listWorkspaces_total: "\<exists>wss. listWorkspaces env fs now daysBack = Inr wss"
proof (cases fs)
  case None
  then show ?thesis by (simp add: listWorkspaces_def)
next
  case (Some dirs)
  obtain ws where "scanDirs env (now - daysBack * 24 * 60 * 60 * 1000) dirs = Inr ws"
    using scanDirs_total by blast
  with Some show ?thesis by (simp add: listWorkspaces_def)
qed




subsection \<open>\<^verbatim>\<open>GET /api/workspaces/:id\<close>\<close>

text \<open>
  Claim C8.  When the id equals the id of no workspace enumerated over the 365-day window,
  the handler answers with status 404 and the error payload, and nothing else.
\<close>

theorem unknown_workspace_404:
  assumes "listWorkspaces env fs now 365 = Inr wss" and "rid \<notin> w_id ` set wss"
  shows "api_workspace env fs now rid filterDate = Inr (Response 404 (ErrorBody ''Workspace not found''))"
proof -
  have "find (\<lambda>ws. w_id ws = rid) wss = None"
    using assms(2) by (auto simp: find_None_iff)
  with assms(1) show ?thesis by (simp add: api_workspace_def)
qed

lemma demo_ids: "w_id ` set [demoWorkspaceC, demoWorkspaceA] = {''c3d4'', ''a1b2''}"
  by (auto simp: demoWorkspaceC_def demoWorkspaceA_def)

text \<open>The theorem at an id that names no directory of the installation.\<close>

theorem unknown_workspace_404_witness:
  "''zzzz'' \<notin> w_id ` set [demoWorkspaceC, demoWorkspaceA]
   \<and> api_workspace demoEnv (Some demoDirs) demoNow ''zzzz'' None
       = Inr (Response 404 (ErrorBody ''Workspace not found''))"
proof -
  have n: "''zzzz'' \<notin> w_id ` set [demoWorkspaceC, demoWorkspaceA]"
    unfolding demo_ids by simp
  show ?thesis
    using unknown_workspace_404[OF demo_list365 n, of None] n by simp
qed




subsection \<open>The date filter of the workspace detail\<close>








subsection \<open>\<^verbatim>\<open>GET /api/dates\<close>\<close>

lemma lc_sym: "localeCompare b a = - localeCompare a b"
  by (induction a b rule: localeCompare.induct) auto

lemma lc_range: "localeCompare a b = - 1 \<or> localeCompare a b = 0 \<or> localeCompare a b = 1"
  by (induction a b rule: localeCompare.induct) auto

lemma lc_eq: "localeCompare a b = 0 \<longleftrightarrow> a = b"
  by (induction a b rule: localeCompare.induct) auto

lemma lc_trans: "localeCompare a b \<le> 0 \<Longrightarrow> localeCompare b c \<le> 0 \<Longrightarrow> localeCompare a c \<le> 0"
proof (induction a b arbitrary: c rule: localeCompare.induct)
  case 1
  then show ?case by simp
next
  case (2 y ys)
  then show ?case by (cases c) auto
next
  case (3 x xs)
  then show ?case by simp
next
  case (4 x xs y ys)
  show ?case
  proof (cases c)
    case Nil
    with 4 show ?thesis by simp
  next
    case (Cons z zs)
    show ?thesis
    proof (cases "(of_char x :: nat) < of_char y")
      case True
      with 4(3) Cons show ?thesis by (auto split: if_splits)
    next
      case False
      with 4(2) have xy: "(of_char x :: nat) = of_char y" and r: "localeCompare xs ys \<le> 0"
        by (auto split: if_splits)
      show ?thesis
      proof (cases "(of_char y :: nat) < of_char z")
        case True
        with xy Cons show ?thesis by simp
      next
        case False2: False
        with 4(3) Cons have yz: "(of_char y :: nat) = of_char z" and r2: "localeCompare ys zs \<le> 0"
          by (auto split: if_splits)
        from 4(1)[OF _ _ r r2] False xy have "localeCompare xs zs \<le> 0" by simp
        with xy yz Cons show ?thesis by simp
      qed
    qed
  qed
qed

lemma lc_total: "localeCompare a b \<le> 0 \<or> localeCompare b a \<le> 0"
  using lc_sym[of a b] by linarith


lemma map_of_ensureDate:
  "map_of (ensureDate d m) k =
     (if k = d \<and> map_of m d = None
      then Some \<lparr> t_promptCount = 0, t_workspaces = [], t_composerCount = 0 \<rparr>
      else map_of m k)"
  by (auto simp: ensureDate_def map_add_def split: option.splits)

lemma map_of_updateEntry:
  "map_of (updateEntry d f m) k = (if k = d then map_option f (map_of m d) else map_of m k)"
  by (induction m) (auto simp: updateEntry_def)

lemma keys_updateEntry: "map fst (updateEntry d f m) = map fst m"
  by (induction m) (auto simp: updateEntry_def)

lemma distinct_ensureDate: "distinct (map fst m) \<Longrightarrow> distinct (map fst (ensureDate d m))"
  by (auto simp: ensureDate_def map_of_eq_None_iff)

lemma count_tallyComposer:
  "composerCountAt (tallyComposer env w m c) k =
     composerCountAt m k + (if toLocaleDateString env (lastUpdatedAt c) = k then 1 else 0)"
  by (simp add: composerCountAt_def tallyComposer_def Let_def map_of_updateEntry map_of_ensureDate
      split: option.splits)

lemma prompts_tallyComposer:
  "promptCountAt (tallyComposer env w m c) k = promptCountAt m k"
  by (simp add: promptCountAt_def tallyComposer_def Let_def map_of_updateEntry map_of_ensureDate
      split: option.splits)

lemma distinct_tallyComposer:
  "distinct (map fst m) \<Longrightarrow> distinct (map fst (tallyComposer env w m c))"
  by (simp add: tallyComposer_def Let_def keys_updateEntry distinct_ensureDate)

lemma present_tallyComposer:
  "map_of m k \<noteq> None \<Longrightarrow> map_of (tallyComposer env w m c) k \<noteq> None"
  by (auto simp: tallyComposer_def Let_def map_of_updateEntry map_of_ensureDate)

lemma fold_tallyComposer:
  "composerCountAt (foldl (tallyComposer env w) m cs) k
     = composerCountAt m k + length (filter (\<lambda>c. toLocaleDateString env (lastUpdatedAt c) = k) cs)
   \<and> promptCountAt (foldl (tallyComposer env w) m cs) k = promptCountAt m k
   \<and> (distinct (map fst m) \<longrightarrow> distinct (map fst (foldl (tallyComposer env w) m cs)))
   \<and> (map_of m k \<noteq> None \<longrightarrow> map_of (foldl (tallyComposer env w) m cs) k \<noteq> None)"
proof (induction cs arbitrary: m)
  case Nil
  then show ?case by simp
next
  case (Cons c cs)
  show ?case
    using Cons.IH[of "tallyComposer env w m c"] present_tallyComposer[of m k env w c]
    by (auto simp: count_tallyComposer prompts_tallyComposer distinct_tallyComposer)
qed

lemma count_updateEntry:
  "(\<And>e. t_composerCount (f e) = t_composerCount e) \<Longrightarrow>
     composerCountAt (updateEntry d f m) k = composerCountAt m k"
  by (simp add: composerCountAt_def map_of_updateEntry split: option.splits)

lemma prompts_updateEntry:
  "map_of m d \<noteq> None \<Longrightarrow> (\<And>e. t_promptCount (f e) = t_promptCount e + n) \<Longrightarrow>
     promptCountAt (updateEntry d f m) k = promptCountAt m k + (if d = k then n else 0)"
  by (auto simp: promptCountAt_def map_of_updateEntry split: option.splits)

lemma tallyWorkspace_props:
  "composerCountAt (tallyWorkspace env m ws) k
     = composerCountAt m k
       + length (filter (\<lambda>c. toLocaleDateString env (lastUpdatedAt c) = k) (composers ws))
   \<and> promptCountAt (tallyWorkspace env m ws) k
     = promptCountAt m k + (if toLocaleDateString env (modifiedTimestamp ws) = k then promptCount ws else 0)
   \<and> (distinct (map fst m) \<longrightarrow> distinct (map fst (tallyWorkspace env m ws)))"
proof -
  define d where "d = toLocaleDateString env (modifiedTimestamp ws)"
  define m1 where "m1 = ensureDate d m"
  define m2 where "m2 = foldl (tallyComposer env (w_id ws)) m1 (composers ws)"
  define f :: "date_tally \<Rightarrow> date_tally" where "f = (\<lambda>wsEntry. wsEntry\<lparr> t_promptCount := t_promptCount wsEntry + promptCount ws,
                            t_workspaces := setAdd (w_id ws) (t_workspaces wsEntry) \<rparr>)"
  have eq: "tallyWorkspace env m ws = updateEntry d f m2"
    by (simp add: tallyWorkspace_def Let_def d_def m1_def m2_def f_def)
  have c1: "composerCountAt m1 k = composerCountAt m k"
    by (simp add: m1_def composerCountAt_def map_of_ensureDate)
  have p1: "promptCountAt m1 k = promptCountAt m k"
    by (simp add: m1_def promptCountAt_def map_of_ensureDate)
  have c2: "composerCountAt m2 k = composerCountAt m1 k
              + length (filter (\<lambda>c. toLocaleDateString env (lastUpdatedAt c) = k) (composers ws))"
    unfolding m2_def using fold_tallyComposer[of env "w_id ws" m1 "composers ws" k] by blast
  have p2: "promptCountAt m2 k = promptCountAt m1 k"
    unfolding m2_def using fold_tallyComposer[of env "w_id ws" m1 "composers ws" k] by blast
  have pres1: "map_of m1 d \<noteq> None"
    by (simp add: m1_def map_of_ensureDate)
  have pres2: "map_of m2 d \<noteq> None"
    unfolding m2_def using fold_tallyComposer[of env "w_id ws" m1 "composers ws" d] pres1 by blast
  have a: "composerCountAt (tallyWorkspace env m ws) k
     = composerCountAt m k
       + length (filter (\<lambda>c. toLocaleDateString env (lastUpdatedAt c) = k) (composers ws))"
  proof -
    have "composerCountAt (updateEntry d f m2) k = composerCountAt m2 k"
      by (rule count_updateEntry) (simp add: f_def)
    with c1 c2 eq show ?thesis by simp
  qed
  have b: "promptCountAt (tallyWorkspace env m ws) k
     = promptCountAt m k + (if toLocaleDateString env (modifiedTimestamp ws) = k then promptCount ws else 0)"
  proof -
    have "promptCountAt (updateEntry d f m2) k = promptCountAt m2 k + (if d = k then promptCount ws else 0)"
      by (rule prompts_updateEntry[OF pres2]) (simp add: f_def)
    with p1 p2 eq show ?thesis by (simp add: d_def)
  qed
  have c: "distinct (map fst m) \<longrightarrow> distinct (map fst (tallyWorkspace env m ws))"
  proof
    assume "distinct (map fst m)"
    then have "distinct (map fst m1)" by (simp add: m1_def distinct_ensureDate)
    then have "distinct (map fst m2)"
      unfolding m2_def using fold_tallyComposer[of env "w_id ws" m1 "composers ws" k] by blast
    then show "distinct (map fst (tallyWorkspace env m ws))"
      by (simp add: eq keys_updateEntry)
  qed
  from a b c show ?thesis by blast
qed

lemma composersOn_snoc:
  "composersOn env (wss @ [ws]) k
     = composersOn env wss k
       + length (filter (\<lambda>c. toLocaleDateString env (lastUpdatedAt c) = k) (composers ws))"
  by (simp add: composersOn_def)

lemma promptsOn_snoc:
  "promptsOn env (wss @ [ws]) k
     = promptsOn env wss k + (if toLocaleDateString env (modifiedTimestamp ws) = k then promptCount ws else 0)"
  by (simp add: promptsOn_def)

lemma tally_all:
  "composerCountAt (foldl (tallyWorkspace env) [] wss) k = composersOn env wss k
   \<and> promptCountAt (foldl (tallyWorkspace env) [] wss) k = promptsOn env wss k
   \<and> distinct (map fst (foldl (tallyWorkspace env) [] wss))"
proof (induction wss rule: rev_induct)
  case Nil
  then show ?case by (simp add: composerCountAt_def promptCountAt_def composersOn_def promptsOn_def)
next
  case (snoc ws wss)
  show ?case
    using snoc.IH tallyWorkspace_props[of env "foldl (tallyWorkspace env) [] wss" ws k]
    by (simp add: composersOn_snoc promptsOn_snoc)
qed


lemma datesResult_set:
  "set (datesResult m) =
     (\<lambda>(d, data). \<lparr> date = d, g_promptCount = t_promptCount data,
                      g_composerCount = t_composerCount data, workspaceIds = t_workspaces data \<rparr>)
       ` {(d, data) \<in> set m. 0 < t_composerCount data}"
  by (auto simp: datesResult_def set_Array_sort)

lemma datesResult_entry:
  assumes "distinct (map fst m)" and "g \<in> set (datesResult m)"
  shows "0 < g_composerCount g \<and> g_composerCount g = composerCountAt m (date g)
         \<and> g_promptCount g = promptCountAt m (date g)"
proof -
  from assms(2) obtain d e where de: "(d, e) \<in> set m" and pos: "0 < t_composerCount e"
    and g: "g = \<lparr> date = d, g_promptCount = t_promptCount e,
                   g_composerCount = t_composerCount e, workspaceIds = t_workspaces e \<rparr>"
    unfolding datesResult_set by auto
  from assms(1) de have "map_of m d = Some e" by simp
  with pos g show ?thesis by (simp add: composerCountAt_def promptCountAt_def)
qed

lemma datesResult_dates:
  assumes "distinct (map fst m)"
  shows "(d \<in> date ` set (datesResult m)) = (0 < composerCountAt m d)"
proof
  assume "d \<in> date ` set (datesResult m)"
  then obtain g where "g \<in> set (datesResult m)" "date g = d" by auto
  with datesResult_entry[OF assms] show "0 < composerCountAt m d" by fastforce
next
  assume "0 < composerCountAt m d"
  then obtain e where e: "map_of m d = Some e" and pos: "0 < t_composerCount e"
    by (auto simp: composerCountAt_def split: option.splits)
  from e have "(d, e) \<in> set m" by (rule map_of_SomeD)
  with pos have "\<lparr> date = d, g_promptCount = t_promptCount e,
                   g_composerCount = t_composerCount e, workspaceIds = t_workspaces e \<rparr>
                 \<in> set (datesResult m)"
    unfolding datesResult_set by force
  then show "d \<in> date ` set (datesResult m)" by force
qed

lemma datesResult_sorted:
  "sorted_wrt (\<lambda>a b. localeCompare (date b) (date a) \<le> 0) (datesResult m)"
proof -
  have "sorted_wrt (\<lambda>a b. (\<lambda>a b. localeCompare (date b) (date a)) a b \<le> 0)
          (Array_sort (\<lambda>a b. localeCompare (date b) (date a))
             (map (\<lambda>(d, data). \<lparr> date = d, g_promptCount = t_promptCount data,
                      g_composerCount = t_composerCount data, workspaceIds = t_workspaces data \<rparr>)
                (filter (\<lambda>(d, data). 0 < t_composerCount data) m)))"
  proof (rule sorted_Array_sort)
    fix a b :: date_group
    show "localeCompare (date b) (date a) \<le> 0 \<or> localeCompare (date a) (date b) \<le> 0"
      by (rule lc_total)
  next
    fix a b c :: date_group
    assume "localeCompare (date b) (date a) \<le> 0" "localeCompare (date c) (date b) \<le> 0"
    then show "localeCompare (date c) (date a) \<le> 0"
      using lc_trans by blast
  qed
  then show ?thesis by (simp add: datesResult_def)
qed

lemma distinct_map_Array_sort: "distinct (map f (Array_sort cmp xs)) = distinct (map f xs)"
proof -
  have "mset (map f (Array_sort cmp xs)) = mset (map f xs)"
    by (simp add: mset_Array_sort)
  then show ?thesis by (rule mset_eq_imp_distinct_iff)
qed

lemma datesResult_distinct:
  assumes "distinct (map fst m)"
  shows "distinct (map date (datesResult m))"
proof -
  have f: "(date \<circ> (\<lambda>(d, data). \<lparr> date = d, g_promptCount = t_promptCount data,
                      g_composerCount = t_composerCount data, workspaceIds = t_workspaces data \<rparr>)) = fst"
    by (auto simp: fun_eq_iff)
  have "distinct (map fst (filter (\<lambda>(d, data). 0 < t_composerCount data) m))"
    using assms by (rule distinct_map_filter)
  then show ?thesis
    unfolding datesResult_def distinct_map_Array_sort map_map f .
qed

text \<open>
  Claim C3.  \<^verbatim>\<open>GET /api/dates\<close> answers with a list in which every entry has a
  positive composer count; a date is listed exactly when some composer of the enumerated
  workspaces was last updated on it (so a date on which only workspaces were modified is
  left out, whatever its prompt count); the composer count of an entry tallies the
  composers by their own last-updated date and its prompt count tallies the workspaces'
  prompt counts by the workspace's own modification date; and the entries are in
  descending order of their date strings, each date once.
\<close>

theorem dates_tally:
  "\<exists>wss res. listWorkspaces env fs now 30 = Inr wss
     \<and> api_dates env fs now = Inr (Response 200 res)
     \<and> (\<forall>g\<in>set res. 0 < g_composerCount g
            \<and> g_composerCount g = composersOn env wss (date g)
            \<and> g_promptCount g = promptsOn env wss (date g))
     \<and> (\<forall>d. (d \<in> date ` set res) = (0 < composersOn env wss d))
     \<and> sorted_wrt (\<lambda>a b. localeCompare (date b) (date a) \<le> 0) res
     \<and> distinct (map date res)"
proof -
  obtain wss where wss: "listWorkspaces env fs now 30 = Inr wss"
    using listWorkspaces_total by blast
  define m where "m = foldl (tallyWorkspace env) [] wss"
  have res: "api_dates env fs now = Inr (Response 200 (datesResult m))"
    by (simp add: api_dates_def wss m_def)
  have cnt: "\<And>k. composerCountAt m k = composersOn env wss k"
    and pc: "\<And>k. promptCountAt m k = promptsOn env wss k"
    and dist: "distinct (map fst m)"
    unfolding m_def using tally_all[of env wss] by blast+
  have a: "\<forall>g\<in>set (datesResult m). 0 < g_composerCount g
            \<and> g_composerCount g = composersOn env wss (date g)
            \<and> g_promptCount g = promptsOn env wss (date g)"
  proof
    fix g assume "g \<in> set (datesResult m)"
    show "0 < g_composerCount g
            \<and> g_composerCount g = composersOn env wss (date g)
            \<and> g_promptCount g = promptsOn env wss (date g)"
      by (rule datesResult_entry[OF dist \<open>g \<in> set (datesResult m)\<close>, unfolded cnt pc])
  qed
  have b: "\<forall>d. (d \<in> date ` set (datesResult m)) = (0 < composersOn env wss d)"
    using datesResult_dates[OF dist] cnt by simp
  from wss res a b datesResult_sorted[of m] datesResult_distinct[OF dist]
  show ?thesis by blast
qed

lemma demo_dates: "api_dates demoEnv (Some demoDirs) demoNow = Inr (Response 200 demoDates)"
  by code_simp

text \<open>
  The theorem at the installation: 2024-01-03, on which a workspace with one prompt and no
  conversation was modified, is not listed.
\<close>

theorem dates_tally_witness:
  "api_dates demoEnv (Some demoDirs) demoNow = Inr (Response 200 demoDates)
   \<and> composersOn demoEnv [demoWorkspaceC, demoWorkspaceA] ''2024-01-02'' = 1
   \<and> promptsOn demoEnv [demoWorkspaceC, demoWorkspaceA] ''2024-01-02'' = 2
   \<and> composersOn demoEnv [demoWorkspaceC, demoWorkspaceA] ''2024-01-03'' = 0
   \<and> promptsOn demoEnv [demoWorkspaceC, demoWorkspaceA] ''2024-01-03'' = 1
   \<and> ''2024-01-03'' \<notin> date ` set demoDates"
proof -
  have p: "promptsOn demoEnv [demoWorkspaceC, demoWorkspaceA] ''2024-01-03'' = 1"
    by code_simp
  have d: "date ` set demoDates = {''2024-01-02'', ''2024-01-01''}"
    by (auto simp: demoDates_def)
  have g: "\<lparr> date = ''2024-01-02'', g_promptCount = 2, g_composerCount = 1, workspaceIds = [''a1b2''] \<rparr>
             \<in> set demoDates"
    by (simp add: demoDates_def)
  obtain wss res where w: "listWorkspaces demoEnv (Some demoDirs) demoNow 30 = Inr wss"
    and r: "api_dates demoEnv (Some demoDirs) demoNow = Inr (Response 200 res)"
    and a: "\<forall>g\<in>set res. 0 < g_composerCount g
            \<and> g_composerCount g = composersOn demoEnv wss (date g)
            \<and> g_promptCount g = promptsOn demoEnv wss (date g)"
    and b: "\<forall>d. (d \<in> date ` set res) = (0 < composersOn demoEnv wss d)"
    using dates_tally[of demoEnv "Some demoDirs" demoNow] by blast
  from w demo_list30 have wss: "wss = [demoWorkspaceC, demoWorkspaceA]" by simp
  from r demo_dates have res: "res = demoDates" by simp
  from a g have c2: "composersOn demoEnv [demoWorkspaceC, demoWorkspaceA] ''2024-01-02'' = 1
     \<and> promptsOn demoEnv [demoWorkspaceC, demoWorkspaceA] ''2024-01-02'' = 2"
    unfolding wss res by fastforce
  have n: "''2024-01-03'' \<notin> date ` set demoDates"
    unfolding d by simp
  with b have c3: "composersOn demoEnv [demoWorkspaceC, demoWorkspaceA] ''2024-01-03'' = 0"
    unfolding wss res by simp
  from c2 c3 p n demo_dates show ?thesis by simp
qed

subsection \<open>\<^verbatim>\<open>GET /api/search\<close>\<close>














subsection \<open>\<^verbatim>\<open>GET /api/composers/:composerId/bubbles\<close>\<close>

lemma bubbleCompare_timed:
  assumes "truthy (b_createdAt a)" "truthy (b_createdAt b)" "timeOf env a = Some x" "timeOf env b = Some y"
  shows "bubbleCompare env a b = x - y"
  using assms by (simp add: bubbleCompare_def)

lemma bubbleCompare_untimed:
  "\<not> truthy (b_createdAt a) \<or> \<not> truthy (b_createdAt b) \<Longrightarrow> bubbleCompare env a b = 0"
  by (auto simp: bubbleCompare_def)

lemma sorted_bubbles:
  assumes all: "\<forall>b\<in>set xs. truthy (b_createdAt b) \<and> timeOf env b \<noteq> None"
  shows "sorted_wrt (\<lambda>a b. \<exists>x y. timeOf env a = Some x \<and> timeOf env b = Some y \<and> x \<le> y)
           (Array_sort (bubbleCompare env) xs)"
proof -
  have cmp: "bubbleCompare env a b \<le> 0 \<longleftrightarrow>
               (\<exists>x y. timeOf env a = Some x \<and> timeOf env b = Some y \<and> x \<le> y)"
    if "a \<in> set xs" "b \<in> set xs" for a b
  proof -
    from all that have ta: "truthy (b_createdAt a)" and tb: "truthy (b_createdAt b)"
      and na: "timeOf env a \<noteq> None" and nb: "timeOf env b \<noteq> None"
      by blast+
    from na nb obtain x y where x: "timeOf env a = Some x" and y: "timeOf env b = Some y"
      by blast
    from bubbleCompare_timed[OF ta tb x y] x y show ?thesis by simp
  qed
  have srt: "sorted_wrt (\<lambda>a b. bubbleCompare env a b \<le> 0) (Array_sort (bubbleCompare env) xs)"
  proof (rule sorted_Array_sort)
    fix a b assume m: "a \<in> set xs" "b \<in> set xs"
    from all m have ta: "truthy (b_createdAt a)" and tb: "truthy (b_createdAt b)"
      and na: "timeOf env a \<noteq> None" and nb: "timeOf env b \<noteq> None"
      by blast+
    from na nb obtain x y where x: "timeOf env a = Some x" and y: "timeOf env b = Some y"
      by blast
    from bubbleCompare_timed[OF ta tb x y] bubbleCompare_timed[OF tb ta y x]
    show "bubbleCompare env a b \<le> 0 \<or> bubbleCompare env b a \<le> 0"
      by linarith
  next
    fix a b c assume m: "a \<in> set xs" "b \<in> set xs" "c \<in> set xs"
      and ab: "bubbleCompare env a b \<le> 0" and bc: "bubbleCompare env b c \<le> 0"
    from ab m obtain x y where "timeOf env a = Some x" "timeOf env b = Some y" "x \<le> y"
      using cmp[of a b] by blast
    moreover from bc m obtain y' z where "timeOf env b = Some y'" "timeOf env c = Some z" "y' \<le> z"
      using cmp[of b c] by blast
    ultimately have "\<exists>x z. timeOf env a = Some x \<and> timeOf env c = Some z \<and> x \<le> z"
      by auto
    then show "bubbleCompare env a c \<le> 0"
      using cmp[of a c] m by blast
  qed
  show ?thesis
  proof (rule sorted_wrt_mono_rel[OF _ srt])
    fix a b
    assume "a \<in> set (Array_sort (bubbleCompare env) xs)" "b \<in> set (Array_sort (bubbleCompare env) xs)"
      and "bubbleCompare env a b \<le> 0"
    then show "\<exists>x y. timeOf env a = Some x \<and> timeOf env b = Some y \<and> x \<le> y"
      using cmp[of a b] by (simp add: set_Array_sort)
  qed
qed

lemma api_bubbles_cases:
  "api_bubbles env GlobalMissing = Inr (Response 200 [])"
  "api_bubbles env GlobalThrows = Inr (Response 200 [])"
  "api_bubbles env (GlobalRows rows) =
     Inr (Response 200 (Array_sort (bubbleCompare env) (List.map_filter (rowBubble env) rows)))"
  by (simp_all add: api_bubbles_def api_bubbles_try_def)

text \<open>
  Claim C6.  The bubbles handler always answers with an array and never with an error;
  the array is empty when the global database file does not exist and when the
  conversation has no rows; the comparator treats two bubbles as equal as soon as one of
  them has no creation timestamp; the array is a rearrangement of the retained bubbles;
  and when every returned bubble has a creation timestamp that is a date, the array is in
  ascending order of creation time.
\<close>

theorem bubbles_ascending:
  "(\<exists>bs. api_bubbles env g = Inr (Response 200 bs))
   \<and> api_bubbles env GlobalMissing = Inr (Response 200 [])
   \<and> api_bubbles env (GlobalRows []) = Inr (Response 200 [])
   \<and> (\<not> truthy (b_createdAt a) \<or> \<not> truthy (b_createdAt b) \<longrightarrow> bubbleCompare env a b = 0)
   \<and> (g = GlobalRows rows \<longrightarrow> api_bubbles env g = Inr (Response st bs) \<longrightarrow>
         mset bs = mset (List.map_filter (rowBubble env) rows))
   \<and> (api_bubbles env g = Inr (Response st bs) \<longrightarrow>
         (\<forall>b\<in>set bs. truthy (b_createdAt b) \<and> timeOf env b \<noteq> None) \<longrightarrow>
         sorted_wrt (\<lambda>a b. \<exists>x y. timeOf env a = Some x \<and> timeOf env b = Some y \<and> x \<le> y) bs)"
proof -
  have total: "\<exists>bs. api_bubbles env g = Inr (Response 200 bs)"
    by (cases g) (simp_all add: api_bubbles_cases)
  have empty: "api_bubbles env (GlobalRows []) = Inr (Response 200 [])"
    by (simp add: api_bubbles_cases)
  have perm: "g = GlobalRows rows \<longrightarrow> api_bubbles env g = Inr (Response st bs) \<longrightarrow>
         mset bs = mset (List.map_filter (rowBubble env) rows)"
    by (auto simp: api_bubbles_cases mset_Array_sort)
  have srt: "api_bubbles env g = Inr (Response st bs) \<longrightarrow>
         (\<forall>b\<in>set bs. truthy (b_createdAt b) \<and> timeOf env b \<noteq> None) \<longrightarrow>
         sorted_wrt (\<lambda>a b. \<exists>x y. timeOf env a = Some x \<and> timeOf env b = Some y \<and> x \<le> y) bs"
  proof (intro impI)
    assume r: "api_bubbles env g = Inr (Response st bs)"
      and all: "\<forall>b\<in>set bs. truthy (b_createdAt b) \<and> timeOf env b \<noteq> None"
    show "sorted_wrt (\<lambda>a b. \<exists>x y. timeOf env a = Some x \<and> timeOf env b = Some y \<and> x \<le> y) bs"
    proof (cases g)
      case GlobalMissing
      with r show ?thesis by (simp add: api_bubbles_cases)
    next
      case GlobalThrows
      with r show ?thesis by (simp add: api_bubbles_cases)
    next
      case (GlobalRows rs)
      with r have bs: "bs = Array_sort (bubbleCompare env) (List.map_filter (rowBubble env) rs)"
        by (simp add: api_bubbles_cases)
      with all have "\<forall>b\<in>set (List.map_filter (rowBubble env) rs).
                        truthy (b_createdAt b) \<and> timeOf env b \<noteq> None"
        by (simp add: set_Array_sort)
      from sorted_bubbles[OF this] bs show ?thesis by simp
    qed
  qed
  from total empty perm srt api_bubbles_cases(1)[of env] bubbleCompare_untimed[of a b env]
  show ?thesis by blast
qed

lemma demo_bubbles: "api_bubbles demoEnv (GlobalRows demoRows) = Inr (Response 200 [demoBubble1, demoBubble2])"
  by code_simp

lemma demo_bubble_times:
  "truthy (b_createdAt demoBubble1)" "truthy (b_createdAt demoBubble2)"
  "timeOf demoEnv demoBubble1 = Some 1704103205000" "timeOf demoEnv demoBubble2 = Some 1704103209000"
  by code_simp+

text \<open>The theorem at the rows of the installation, which are stored latest first.\<close>

theorem bubbles_ascending_witness:
  "api_bubbles demoEnv (GlobalRows demoRows) = Inr (Response 200 [demoBubble1, demoBubble2])
   \<and> (\<exists>x y. timeOf demoEnv demoBubble1 = Some x \<and> timeOf demoEnv demoBubble2 = Some y \<and> x \<le> y)
   \<and> \<not> truthy (b_createdAt (demoBubble2\<lparr>b_createdAt := None\<rparr>))
   \<and> bubbleCompare demoEnv demoBubble1 (demoBubble2\<lparr>b_createdAt := None\<rparr>) = 0"
proof -
  have all: "\<forall>b\<in>set [demoBubble1, demoBubble2]. truthy (b_createdAt b) \<and> timeOf demoEnv b \<noteq> None"
    using demo_bubble_times by simp
  have u: "\<not> truthy (b_createdAt (demoBubble2\<lparr>b_createdAt := None\<rparr>))" by simp
  from bubbles_ascending[of demoEnv "GlobalRows demoRows" demoBubble1 "demoBubble2\<lparr>b_createdAt := None\<rparr>"
      demoRows 200 "[demoBubble1, demoBubble2]"] demo_bubbles all u
  have "sorted_wrt (\<lambda>a b. \<exists>x y. timeOf demoEnv a = Some x \<and> timeOf demoEnv b = Some y \<and> x \<le> y)
          [demoBubble1, demoBubble2]"
    and "bubbleCompare demoEnv demoBubble1 (demoBubble2\<lparr>b_createdAt := None\<rparr>) = 0"
    by blast+
  with demo_bubbles u show ?thesis by simp
qed

subsection \<open>The markdown summary\<close>























end
